theory Spec2Isabelle
  imports Main "HOL-Library.Sublist"
begin

section \<open>Rule identities of public/app/features/alerting/unified/utils/rules.ts\<close>

text \<open>
  The module classifies ruler rule objects by the keys they carry, hashes the content of
  recording and alerting rules, and converts rule identifiers to and from one string.
  JavaScript strings are modelled as \<open>string\<close>, thrown exceptions as the left summand of
  a sum type, and the library functions the module calls (\<open>split\<close>, \<open>join\<close>,
  \<open>replace\<close>, \<open>sort\<close>, \<open>JSON.stringify\<close>) as recursive functions. Four collaborators
  are parameters of the functions that call them, since their result depends on the platform
  or on code outside this module: \<open>hash\<close> of \<open>./misc\<close>, \<open>localeCompare\<close>, and the
  conversions \<open>Number\<close> and \<open>String\<close> between numbers and strings (written
  \<open>toNumber\<close> and \<open>toString\<close>). The type \<open>'n\<close> stands for JavaScript's numbers.
  A character of a \<open>string\<close> stands for one code unit of a JavaScript string.
\<close>

subsection \<open>Exceptions\<close>

datatype error =
  Error string  \<comment> \<open>\<open>new Error(message)\<close>\<close>
  | TypeError   \<comment> \<open>raised by the language itself: \<open>in\<close> on a non-object, a property of \<open>undefined\<close>\<close>

subsection \<open>String operations of the platform\<close>

text \<open>\<open>s.split(sep)\<close> for a separator of one character: the pieces between the
  occurrences of the separator, so one piece more than there are occurrences.\<close>

fun split_str :: "char \<Rightarrow> string \<Rightarrow> string list" where
  "split_str sep [] = [[]]"
| "split_str sep (c # cs) =
     (if c = sep then [] # split_str sep cs
      else (case split_str sep cs of p # ps \<Rightarrow> (c # p) # ps | [] \<Rightarrow> [[c]]))"

text \<open>\<open>parts.join(sep)\<close>.\<close>

fun join_str :: "string \<Rightarrow> string list \<Rightarrow> string" where
  "join_str sep [] = []"
| "join_str sep [x] = x"
| "join_str sep (x # y # ys) = x @ sep @ join_str sep (y # ys)"

text \<open>\<open>s.replace(/pat/g, rep)\<close> for a pattern that is a literal, non-empty text and a
  replacement without substitution patterns: scanning from the left, every match is replaced
  and the scan goes on behind the match.\<close>

fun replace_all :: "string \<Rightarrow> string \<Rightarrow> string \<Rightarrow> string" where
  "replace_all pat rep [] = []"
| "replace_all pat rep (c # cs) =
     (if pat \<noteq> [] \<and> prefix pat (c # cs)
      then rep @ replace_all pat rep (drop (length pat - 1) cs)
      else c # replace_all pat rep cs)"

subsection \<open>Rule identifiers and their string form\<close>

text \<open>\<open>RuleIdentifier\<close> is the union of \<open>GrafanaRuleIdentifier\<close> (\<open>{ uid }\<close>) and
  \<open>CloudRuleIdentifier\<close>; every identifier this module builds is an object literal of one of
  the two forms.\<close>

datatype 'n RuleIdentifier =
  GrafanaRuleIdentifier (uid: string)
  | CloudRuleIdentifier (ruleSourceName: string) (namespace: string) (groupName: string)
      (ruleHash: 'n)

fun isGrafanaRuleIdentifier :: "'n RuleIdentifier \<Rightarrow> bool" where
  "isGrafanaRuleIdentifier (GrafanaRuleIdentifier _) = True"
| "isGrafanaRuleIdentifier (CloudRuleIdentifier _ _ _ _) = False"

fun isCloudRuleIdentifier :: "'n RuleIdentifier \<Rightarrow> bool" where
  "isCloudRuleIdentifier (GrafanaRuleIdentifier _) = False"
| "isCloudRuleIdentifier (CloudRuleIdentifier _ _ _ _) = True"

definition escapeDollars :: "string \<Rightarrow> string" where
  "escapeDollars value = replace_all ''$'' ''_DOLLAR_'' value"

definition unesacapeDollars :: "string \<Rightarrow> string" where
  "unesacapeDollars value = replace_all ''_DOLLAR_'' ''$'' value"

text \<open>\<open>String\<close> leaves the three string fields as they are, so \<open>.map(String)\<close> only
  converts the hash.\<close>

definition stringifyRuleIdentifier :: "('n \<Rightarrow> string) \<Rightarrow> 'n RuleIdentifier \<Rightarrow> string" where
  "stringifyRuleIdentifier toString location =
     (if isGrafanaRuleIdentifier location then uid location
      else join_str ''$''
             (map escapeDollars
                [ruleSourceName location, namespace location, groupName location,
                 toString (ruleHash location)]))"

definition parseRuleIdentifier :: "(string \<Rightarrow> 'n) \<Rightarrow> string \<Rightarrow> error + 'n RuleIdentifier" where
  "parseRuleIdentifier toNumber location =
     (let parts = split_str CHR ''$'' location in
      if length parts = 1 then Inr (GrafanaRuleIdentifier location)
      else if length parts = 4 then
        (let unescaped = map unesacapeDollars parts in
         Inr (CloudRuleIdentifier (unescaped ! 0) (unescaped ! 1) (unescaped ! 2)
                (toNumber (unescaped ! 3))))
      else Inl (Error (''Failed to parse rule location: '' @ location)))"

subsection \<open>Ruler rule objects and their classification\<close>

text \<open>Modelled from the spec: the declarations of \<open>app/types/unified-alerting-dto\<close> are not
  among the sources. A rule object is a record of the keys this module reads, each present
  (\<open>Some\<close>) or absent (\<open>None\<close>): a recording rule has \<open>record\<close> and \<open>expr\<close> and may have
  labels, an alerting rule has \<open>alert\<close> and \<open>expr\<close> and may have labels and annotations, a
  Grafana rule has the nested block \<open>grafana_alert\<close> that holds its uid. No tag is stored:
  the classifiers below read the keys. The type of a rule object is a union of object types,
  and an object type names the keys an object must have without excluding others, so an
  object with the keys of several members belongs to the union: the record admits every
  combination of keys. A mapping of labels or annotations is the list of its entries in the
  order \<open>Object.entries\<close> enumerates them; its keys are distinct.\<close>

type_synonym Labels = "(string \<times> string) list"

type_synonym Annotations = "(string \<times> string) list"

record GrafanaRuleDefinition =
  grafana_alert_uid :: string  \<comment> \<open>\<open>rule.grafana_alert.uid\<close>\<close>

record RulerRuleDTO =
  alert :: "string option"
  record' :: "string option"  \<comment> \<open>the key \<open>record\<close>\<close>
  expr :: "string option"
  labels :: "Labels option"
  annotations :: "Annotations option"
  grafana_alert :: "GrafanaRuleDefinition option"

definition isAlertingRulerRule :: "RulerRuleDTO \<Rightarrow> bool" where
  "isAlertingRulerRule rule = (alert rule \<noteq> None)"

definition isRecordingRulerRule :: "RulerRuleDTO \<Rightarrow> bool" where
  "isRecordingRulerRule rule = (record' rule \<noteq> None)"

text \<open>\<open>isGrafanaRulerRule\<close> takes an optional argument: \<open>None\<close> is \<open>undefined\<close>. The
  operator \<open>in\<close> raises a \<open>TypeError\<close> when its right operand is not an object.\<close>

definition typeof :: "RulerRuleDTO option \<Rightarrow> string" where
  "typeof rule = (case rule of None \<Rightarrow> ''undefined'' | Some _ \<Rightarrow> ''object'')"

definition in_grafana_alert :: "RulerRuleDTO option \<Rightarrow> error + bool" where
  "in_grafana_alert rule =
     (case rule of None \<Rightarrow> Inl TypeError | Some r \<Rightarrow> Inr (grafana_alert r \<noteq> None))"

definition isGrafanaRulerRule :: "RulerRuleDTO option \<Rightarrow> error + bool" where
  "isGrafanaRulerRule rule =
     (if typeof rule = ''object'' then in_grafana_alert rule else Inr False)"

subsection \<open>Sorting and JSON of the platform\<close>

text \<open>\<open>entries.sort(compare)\<close>: the sort is stable, and for a consistent comparison its
  result is the one sorted arrangement that keeps equal elements in their order, whatever
  the engine's algorithm. An element goes before another when \<open>compare\<close> is not positive.\<close>

fun insert_sorted :: "('a \<Rightarrow> 'a \<Rightarrow> int) \<Rightarrow> 'a \<Rightarrow> 'a list \<Rightarrow> 'a list" where
  "insert_sorted compare x [] = [x]"
| "insert_sorted compare x (y # ys) =
     (if compare x y \<le> 0 then x # y # ys else y # insert_sorted compare x ys)"

definition array_sort :: "('a \<Rightarrow> 'a \<Rightarrow> int) \<Rightarrow> 'a list \<Rightarrow> 'a list" where
  "array_sort compare xs = foldr (insert_sorted compare) xs []"

text \<open>The JSON values this module serializes: strings, arrays, and \<open>null\<close>, which is what
  \<open>undefined\<close> inside an array is written as.\<close>

datatype json = JNull | JString string | JArray "json list"

definition hex_digit :: "nat \<Rightarrow> char" where
  "hex_digit n = ''0123456789abcdef'' ! (n mod 16)"

definition quote_json_char :: "char \<Rightarrow> string" where
  "quote_json_char c =
     (if c = CHR 0x08 then [CHR 0x5C, CHR ''b'']
      else if c = CHR 0x09 then [CHR 0x5C, CHR ''t'']
      else if c = CHR 0x0A then [CHR 0x5C, CHR ''n'']
      else if c = CHR 0x0C then [CHR 0x5C, CHR ''f'']
      else if c = CHR 0x0D then [CHR 0x5C, CHR ''r'']
      else if c = CHR 0x22 then [CHR 0x5C, CHR 0x22]
      else if c = CHR 0x5C then [CHR 0x5C, CHR 0x5C]
      else if (of_char c :: nat) < 0x20
        then [CHR 0x5C, CHR ''u'', CHR ''0'', CHR ''0'',
              hex_digit (of_char c div 16), hex_digit (of_char c)]
      else [c])"

definition quote_json_string :: "string \<Rightarrow> string" where
  "quote_json_string s = [CHR 0x22] @ concat (map quote_json_char s) @ [CHR 0x22]"

fun JSON_stringify :: "json \<Rightarrow> string" where
  "JSON_stringify JNull = ''null''"
| "JSON_stringify (JString s) = quote_json_string s"
| "JSON_stringify (JArray xs) = ''['' @ join_str '','' (map JSON_stringify xs) @ '']''"

definition json_of_string :: "string option \<Rightarrow> json" where
  "json_of_string v = (case v of None \<Rightarrow> JNull | Some s \<Rightarrow> JString s)"

definition json_of_entry :: "string \<times> string \<Rightarrow> json" where
  "json_of_entry e = JArray [JString (fst e), JString (snd e)]"

subsection \<open>Hashing rule content\<close>

definition hashLabelsOrAnnotations ::
    "(string \<Rightarrow> string \<Rightarrow> int) \<Rightarrow> (string \<times> string) list option \<Rightarrow> string" where
  "hashLabelsOrAnnotations localeCompare item =
     JSON_stringify
       (JArray (map json_of_entry
          (array_sort (\<lambda>a b. localeCompare (fst a) (fst b))
             (case item of None \<Rightarrow> [] | Some entries \<Rightarrow> entries))))"

definition hashRulerRule ::
    "(string \<Rightarrow> 'n) \<Rightarrow> (string \<Rightarrow> string \<Rightarrow> int) \<Rightarrow> RulerRuleDTO \<Rightarrow> error + 'n" where
  "hashRulerRule hash localeCompare rule =
     (if isRecordingRulerRule rule then
        Inr (hash (JSON_stringify (JArray
          [json_of_string (record' rule), json_of_string (expr rule),
           JString (hashLabelsOrAnnotations localeCompare (labels rule))])))
      else if isAlertingRulerRule rule then
        Inr (hash (JSON_stringify (JArray
          [json_of_string (alert rule), json_of_string (expr rule),
           JString (hashLabelsOrAnnotations localeCompare (annotations rule)),
           JString (hashLabelsOrAnnotations localeCompare (labels rule))])))
      else Inl (Error ''only recording and alerting ruler rules can be hashed''))"

text \<open>Reading \<open>rule.grafana_alert.uid\<close> raises a \<open>TypeError\<close> when \<open>grafana_alert\<close> is
  absent; the exception of \<open>hashRulerRule\<close> passes through.\<close>

definition getRuleIdentifier ::
    "(string \<Rightarrow> 'n) \<Rightarrow> (string \<Rightarrow> string \<Rightarrow> int) \<Rightarrow> string \<Rightarrow> string \<Rightarrow> string \<Rightarrow> RulerRuleDTO
       \<Rightarrow> error + 'n RuleIdentifier" where
  "getRuleIdentifier hash localeCompare ruleSourceName' namespace' groupName' rule =
     (case isGrafanaRulerRule (Some rule) of
        Inl e \<Rightarrow> Inl e
      | Inr True \<Rightarrow>
          (case grafana_alert rule of
             None \<Rightarrow> Inl TypeError
           | Some g \<Rightarrow> Inr (GrafanaRuleIdentifier (grafana_alert_uid g)))
      | Inr False \<Rightarrow>
          (case hashRulerRule hash localeCompare rule of
             Inl e \<Rightarrow> Inl e
           | Inr h \<Rightarrow> Inr (CloudRuleIdentifier ruleSourceName' namespace' groupName' h)))"

subsection \<open>Integers as numbers\<close>

text \<open>The numbers a rule hash takes are integers, and \<open>NaN\<close> is what \<open>Number\<close> answers for
  a text that is no numeral. On them \<open>String\<close> writes the decimal numeral with a leading
  minus sign for a negative integer, and \<open>Number\<close> reads a decimal numeral with an optional
  sign, and the empty text as zero. The platform's \<open>Number\<close> reads further forms (white
  space, fractions, exponents, radix prefixes, \<open>Infinity\<close>) whose values are not integers in
  general; \<open>decimalNumber\<close> answers \<open>NaN\<close> for them, and serves to run the functions above
  on integer hashes only.\<close>

datatype number = Integer int | NaN

fun decimal_digits :: "nat \<Rightarrow> string" where
  "decimal_digits n =
     (if n < 10 then [hex_digit n] else decimal_digits (n div 10) @ [hex_digit (n mod 10)])"

declare decimal_digits.simps [simp del]

definition is_digit :: "char \<Rightarrow> bool" where
  "is_digit c = (c \<in> set ''0123456789'')"

definition digits_value :: "string \<Rightarrow> nat" where
  "digits_value ds = foldl (\<lambda>acc c. 10 * acc + (of_char c - of_char CHR ''0'')) 0 ds"

definition decimalString :: "number \<Rightarrow> string" where
  "decimalString x =
     (case x of
        NaN \<Rightarrow> ''NaN''
      | Integer i \<Rightarrow>
          if i < 0 then CHR ''-'' # decimal_digits (nat (- i)) else decimal_digits (nat i))"

definition unsigned_number :: "string \<Rightarrow> int option" where
  "unsigned_number ds =
     (if ds \<noteq> [] \<and> list_all is_digit ds then Some (int (digits_value ds)) else None)"

definition decimalNumber :: "string \<Rightarrow> number" where
  "decimalNumber s =
     (if s = [] then Integer 0
      else if hd s = CHR ''-'' then
        (case unsigned_number (tl s) of None \<Rightarrow> NaN | Some v \<Rightarrow> Integer (- v))
      else if hd s = CHR ''+'' then
        (case unsigned_number (tl s) of None \<Rightarrow> NaN | Some v \<Rightarrow> Integer v)
      else (case unsigned_number s of None \<Rightarrow> NaN | Some v \<Rightarrow> Integer v))"

text \<open>A comparison of two texts by their character codes is one consistent comparison,
  and the length of a text is one hash: they stand in for \<open>localeCompare\<close> and \<open>hash\<close>
  where the functions above are run on examples.\<close>

fun compare_codes :: "string \<Rightarrow> string \<Rightarrow> int" where
  "compare_codes [] [] = 0"
| "compare_codes [] (y # ys) = - 1"
| "compare_codes (x # xs) [] = 1"
| "compare_codes (x # xs) (y # ys) =
     (if (of_char x :: nat) < of_char y then - 1
      else if (of_char y :: nat) < of_char x then 1
      else compare_codes xs ys)"

definition length_hash :: "string \<Rightarrow> number" where
  "length_hash s = Integer (int (length s))"

text \<open>The platform's \<open>localeCompare\<close> gives no weight to some code units, so two
  distinct texts can compare as equal: \<open>'a\u0001'.localeCompare('a')\<close> is 0. Comparison by
  character codes with the code unit U+0001 left out stands in for it where two such keys
  meet.\<close>

definition compare_ignoring_soh :: "string \<Rightarrow> string \<Rightarrow> int" where
  "compare_ignoring_soh a b =
     compare_codes (filter (\<lambda>c. c \<noteq> CHR 0x01) a) (filter (\<lambda>c. c \<noteq> CHR 0x01) b)"

subsection \<open>Predicates of the statements\<close>

text \<open>A text that escaping and unescaping give back: it has no occurrence of \<open>_DOLLAR\<close>
  that is followed by \<open>_\<close> or by \<open>$\<close>.\<close>

definition escape_safe :: "string \<Rightarrow> bool" where
  "escape_safe s = (\<not> sublist ''_DOLLAR_'' s \<and> \<not> sublist ''_DOLLAR$'' s)"

text \<open>A comparison is consistent on a set of keys when "not positive" is a total order
  there: any two keys are comparable, only equal keys compare both ways, and the comparison
  is transitive.\<close>

definition compare_total :: "('a \<Rightarrow> 'a \<Rightarrow> int) \<Rightarrow> 'a set \<Rightarrow> bool" where
  "compare_total cmp S = (\<forall>a\<in>S. \<forall>b\<in>S. cmp a b \<le> 0 \<or> cmp b a \<le> 0)"

definition compare_trans :: "('a \<Rightarrow> 'a \<Rightarrow> int) \<Rightarrow> 'a set \<Rightarrow> bool" where
  "compare_trans cmp S =
     (\<forall>a\<in>S. \<forall>b\<in>S. \<forall>c\<in>S. cmp a b \<le> 0 \<and> cmp b c \<le> 0 \<longrightarrow> cmp a c \<le> 0)"

definition compare_antisym :: "('a \<Rightarrow> 'a \<Rightarrow> int) \<Rightarrow> 'a set \<Rightarrow> bool" where
  "compare_antisym cmp S = (\<forall>a\<in>S. \<forall>b\<in>S. cmp a b \<le> 0 \<and> cmp b a \<le> 0 \<longrightarrow> a = b)"

definition consistent_on :: "(string \<Rightarrow> string \<Rightarrow> int) \<Rightarrow> string set \<Rightarrow> bool" where
  "consistent_on localeCompare K =
     (compare_total localeCompare K \<and> compare_antisym localeCompare K \<and>
      compare_trans localeCompare K)"

text \<open>How many of the three classifiers accept a rule object, and how many of the three
  keys they read the object has.\<close>

definition shapes_matched :: "RulerRuleDTO \<Rightarrow> nat" where
  "shapes_matched rule =
     length (filter id
       [isGrafanaRulerRule (Some rule) = Inr True, isRecordingRulerRule rule,
        isAlertingRulerRule rule])"

definition distinguishing_keys :: "RulerRuleDTO \<Rightarrow> nat" where
  "distinguishing_keys rule =
     length (filter id [grafana_alert rule \<noteq> None, record' rule \<noteq> None, alert rule \<noteq> None])"

section \<open>Properties of the string operations\<close>

lemma escapeDollars_Nil [simp]: "escapeDollars [] = []"
  by (simp add: escapeDollars_def)

lemma escapeDollars_Cons:
  "escapeDollars (c # cs) =
     (if c = CHR ''$'' then ''_DOLLAR_'' @ escapeDollars cs else c # escapeDollars cs)"
  by (simp add: escapeDollars_def)

lemma unesacapeDollars_Nil [simp]: "unesacapeDollars [] = []"
  by (simp add: unesacapeDollars_def)

lemma unesacapeDollars_Cons:
  "unesacapeDollars (c # cs) =
     (if prefix ''_DOLLAR_'' (c # cs) then CHR ''$'' # unesacapeDollars (drop 7 cs)
      else c # unesacapeDollars cs)"
  by (simp add: unesacapeDollars_def eval_nat_numeral cong: if_cong)

lemma dollar_notin_escapeDollars: "CHR ''$'' \<notin> set (escapeDollars s)"
  by (induction s) (simp_all add: escapeDollars_Cons)

lemma split_str_not_Nil: "split_str sep s \<noteq> []"
  by (induction s) (auto split: list.splits)

lemma length_split_str: "length (split_str sep s) = Suc (length (filter (\<lambda>c. c = sep) s))"
  by (induction s) (auto split: list.splits simp: split_str_not_Nil)

lemma split_str_no_sep: "sep \<notin> set p \<Longrightarrow> split_str sep p = [p]"
  by (induction p) auto

lemma split_str_append: "sep \<notin> set p \<Longrightarrow> split_str sep (p @ sep # r) = p # split_str sep r"
  by (induction p) auto

lemma split_join:
  "ps \<noteq> [] \<Longrightarrow> \<forall>p\<in>set ps. sep \<notin> set p \<Longrightarrow> split_str sep (join_str [sep] ps) = ps"
proof (induction "[sep]" ps rule: join_str.induct)
  case 1
  then show ?case by simp
next
  case (2 x)
  then show ?case by (simp add: split_str_no_sep)
next
  case (3 x y ys)
  then show ?case by (simp add: split_str_append)
qed

lemma length_split_one: "length (split_str sep s) = 1 \<longleftrightarrow> sep \<notin> set s"
  by (auto simp: length_split_str filter_empty_conv)

lemma prefix_escape_step:
  "prefix (x # p) (escapeDollars cs) \<Longrightarrow> x \<noteq> CHR ''_'' \<Longrightarrow>
     \<exists>cs'. cs = x # cs' \<and> prefix p (escapeDollars cs')"
  by (cases cs) (auto simp: escapeDollars_Cons split: if_splits)

lemma prefix_escape_last:
  "prefix ''_'' (escapeDollars cs) \<Longrightarrow> prefix ''_'' cs \<or> prefix ''$'' cs"
  by (cases cs) (auto simp: escapeDollars_Cons split: if_splits)

lemma prefix_DOLLAR_escape:
  assumes "prefix ''DOLLAR_'' (escapeDollars cs)"
  shows "prefix ''DOLLAR_'' cs \<or> prefix ''DOLLAR$'' cs"
proof -
  from prefix_escape_step[OF assms] obtain c1 where 1: "cs = CHR ''D'' # c1" "prefix ''OLLAR_'' (escapeDollars c1)" by auto
  from prefix_escape_step[OF 1(2)] obtain c2 where 2: "c1 = CHR ''O'' # c2" "prefix ''LLAR_'' (escapeDollars c2)" by auto
  from prefix_escape_step[OF 2(2)] obtain c3 where 3: "c2 = CHR ''L'' # c3" "prefix ''LAR_'' (escapeDollars c3)" by auto
  from prefix_escape_step[OF 3(2)] obtain c4 where 4: "c3 = CHR ''L'' # c4" "prefix ''AR_'' (escapeDollars c4)" by auto
  from prefix_escape_step[OF 4(2)] obtain c5 where 5: "c4 = CHR ''A'' # c5" "prefix ''R_'' (escapeDollars c5)" by auto
  from prefix_escape_step[OF 5(2)] obtain c6 where 6: "c5 = CHR ''R'' # c6" "prefix ''_'' (escapeDollars c6)" by auto
  from prefix_escape_last[OF 6(2)] have "prefix ''_'' c6 \<or> prefix ''$'' c6" .
  with 1 2 3 4 5 6 show ?thesis by simp
qed

lemma unescape_escape: "escape_safe s \<Longrightarrow> unesacapeDollars (escapeDollars s) = s"
proof (induction s)
  case Nil
  then show ?case by simp
next
  case (Cons c cs)
  from Cons.prems have tl: "escape_safe cs"
    by (auto simp: escape_safe_def sublist_Cons_right)
  show ?case
  proof (cases "c = CHR ''$''")
    case True
    then show ?thesis using Cons.IH[OF tl]
      by (simp add: escapeDollars_Cons unesacapeDollars_Cons)
  next
    case False
    have "\<not> prefix ''_DOLLAR_'' (c # escapeDollars cs)"
    proof
      assume p: "prefix ''_DOLLAR_'' (c # escapeDollars cs)"
      then have c: "c = CHR ''_''" and q: "prefix ''DOLLAR_'' (escapeDollars cs)" by auto
      from prefix_DOLLAR_escape[OF q]
      have "prefix ''_DOLLAR_'' (c # cs) \<or> prefix ''_DOLLAR$'' (c # cs)" using c by simp
      with Cons.prems show False
        by (auto simp: escape_safe_def sublist_Cons_right)
    qed
    then show ?thesis using False Cons.IH[OF tl]
      by (simp add: escapeDollars_Cons unesacapeDollars_Cons)
  qed
qed

section \<open>Properties of sorting\<close>

lemma set_insert_sorted: "set (insert_sorted cmp x xs) = insert x (set xs)"
  by (induction xs) auto

lemma set_array_sort: "set (array_sort cmp xs) = set xs"
  by (induction xs) (simp_all add: array_sort_def set_insert_sorted)

lemma distinct_insert_sorted:
  "distinct (insert_sorted cmp x xs) \<longleftrightarrow> x \<notin> set xs \<and> distinct xs"
  by (induction xs) (auto simp: set_insert_sorted)

lemma array_sort_Cons: "array_sort cmp (x # xs) = insert_sorted cmp x (array_sort cmp xs)"
  by (simp add: array_sort_def)

lemma array_sort_Nil: "array_sort cmp [] = []"
  by (simp add: array_sort_def)

lemma distinct_array_sort: "distinct (array_sort cmp xs) \<longleftrightarrow> distinct xs"
  by (induction xs) (simp_all add: array_sort_Nil array_sort_Cons distinct_insert_sorted set_array_sort)

lemma sorted_insert_sorted:
  assumes total: "compare_total cmp S" and trans: "compare_trans cmp S"
  shows "x \<in> S \<Longrightarrow> set xs \<subseteq> S \<Longrightarrow> sorted_wrt (\<lambda>a b. cmp a b \<le> 0) xs \<Longrightarrow>
         sorted_wrt (\<lambda>a b. cmp a b \<le> 0) (insert_sorted cmp x xs)"
proof (induction xs)
  case Nil
  then show ?case by simp
next
  case (Cons y ys)
  have xS: "x \<in> S" and yS: "y \<in> S" and ysS: "set ys \<subseteq> S" using Cons.prems by auto
  have sy: "\<forall>z\<in>set ys. cmp y z \<le> 0" and sys: "sorted_wrt (\<lambda>a b. cmp a b \<le> 0) ys"
    using Cons.prems by auto
  show ?case
  proof (cases "cmp x y \<le> 0")
    case True
    have "cmp x z \<le> 0" if "z \<in> set ys" for z
    proof -
      have "z \<in> S" "cmp y z \<le> 0" using that ysS sy by auto
      with trans xS yS True show ?thesis unfolding compare_trans_def by blast
    qed
    with True sy sys show ?thesis by simp
  next
    case False
    with total xS yS have yx: "cmp y x \<le> 0" unfolding compare_total_def by blast
    have "sorted_wrt (\<lambda>a b. cmp a b \<le> 0) (insert_sorted cmp x ys)"
      by (rule Cons.IH[OF xS ysS sys])
    with False yx sy show ?thesis by (simp add: set_insert_sorted)
  qed
qed

lemma sorted_array_sort:
  assumes total: "compare_total cmp S" and trans: "compare_trans cmp S"
  shows "set xs \<subseteq> S \<Longrightarrow> sorted_wrt (\<lambda>a b. cmp a b \<le> 0) (array_sort cmp xs)"
proof (induction xs)
  case Nil
  then show ?case by (simp add: array_sort_Nil)
next
  case (Cons x xs)
  have xS: "x \<in> S" and xsS: "set xs \<subseteq> S" using Cons.prems by auto
  have 1: "sorted_wrt (\<lambda>a b. cmp a b \<le> 0) (array_sort cmp xs)" by (rule Cons.IH[OF xsS])
  have 2: "set (array_sort cmp xs) \<subseteq> S" using xsS by (simp add: set_array_sort)
  show ?case unfolding array_sort_Cons
    by (rule sorted_insert_sorted[OF total trans xS 2 1])
qed

lemma sorted_wrt_unique:
  assumes antisym: "compare_antisym cmp S"
  shows "sorted_wrt (\<lambda>a b. cmp a b \<le> 0) xs \<Longrightarrow> sorted_wrt (\<lambda>a b. cmp a b \<le> 0) ys \<Longrightarrow>
         distinct xs \<Longrightarrow> distinct ys \<Longrightarrow> set xs = set ys \<Longrightarrow> set xs \<subseteq> S \<Longrightarrow> xs = ys"
proof (induction xs arbitrary: ys)
  case Nil
  then show ?case by simp
next
  case (Cons x xs)
  then obtain y ys' where ys: "ys = y # ys'" by (cases ys) auto
  have xS: "x \<in> S" and yS: "y \<in> S" using Cons.prems ys by auto
  have xy: "x = y"
  proof (rule ccontr)
    assume ne: "x \<noteq> y"
    with Cons.prems(5) ys have "x \<in> set ys'" "y \<in> set xs" by auto
    with Cons.prems(1,2) ys have "cmp y x \<le> 0" "cmp x y \<le> 0" by auto
    with antisym xS yS have "x = y" unfolding compare_antisym_def by blast
    with ne show False by simp
  qed
  have "set xs = set ys'" using Cons.prems(3,4,5) ys xy by auto
  moreover have "sorted_wrt (\<lambda>a b. cmp a b \<le> 0) xs" "sorted_wrt (\<lambda>a b. cmp a b \<le> 0) ys'"
    "distinct xs" "distinct ys'" "set xs \<subseteq> S"
    using Cons.prems ys by auto
  ultimately have "xs = ys'" using Cons.IH[of ys'] by blast
  with xy ys show ?case by simp
qed

lemma compare_total_fst:
  "compare_total lc (fst ` S) \<Longrightarrow> compare_total (\<lambda>a b. lc (fst a) (fst b)) S"
  unfolding compare_total_def by blast

lemma compare_trans_fst:
  "compare_trans lc (fst ` S) \<Longrightarrow> compare_trans (\<lambda>a b. lc (fst a) (fst b)) S"
  unfolding compare_trans_def by blast

lemma compare_antisym_fst:
  assumes "compare_antisym lc (fst ` set m)" and "distinct (map fst m)"
  shows "compare_antisym (\<lambda>a b. lc (fst a) (fst b)) (set m)"
  unfolding compare_antisym_def
proof (intro ballI impI)
  fix a b assume ab: "a \<in> set m" "b \<in> set m"
    and le: "lc (fst a) (fst b) \<le> 0 \<and> lc (fst b) (fst a) \<le> 0"
  have "fst a \<in> fst ` set m" "fst b \<in> fst ` set m" using ab by auto
  with assms(1) le have k: "fst a = fst b" unfolding compare_antisym_def by blast
  obtain k1 v1 k2 v2 where a: "a = (k1, v1)" and b: "b = (k2, v2)" by (cases a, cases b)
  from assms(2) ab k show "a = b" unfolding a b
    using eq_key_imp_eq_value[of m k1 v1 v2] by simp
qed

lemma array_sort_entries_unique:
  assumes d1: "distinct (map fst m1)" and d2: "distinct (map fst m2)"
    and eq: "set m1 = set m2"
    and cons: "consistent_on lc (fst ` set m1)"
  shows "array_sort (\<lambda>a b. lc (fst a) (fst b)) m1 = array_sort (\<lambda>a b. lc (fst a) (fst b)) m2"
proof -
  let ?cmp = "\<lambda>a b. lc (fst a) (fst b)"
  have total: "compare_total ?cmp (set m1)"
    using cons by (simp add: consistent_on_def compare_total_fst)
  have trans: "compare_trans ?cmp (set m1)"
    using cons by (simp add: consistent_on_def compare_trans_fst)
  have antisym: "compare_antisym ?cmp (set m1)"
    using cons d1 by (simp add: consistent_on_def compare_antisym_fst)
  have s1: "sorted_wrt (\<lambda>a b. ?cmp a b \<le> 0) (array_sort ?cmp m1)"
    by (rule sorted_array_sort[OF total trans]) simp
  have s2: "sorted_wrt (\<lambda>a b. ?cmp a b \<le> 0) (array_sort ?cmp m2)"
    by (rule sorted_array_sort[OF total trans]) (simp add: eq)
  have "distinct m1" using d1 by (simp add: distinct_map)
  moreover have "distinct m2" using d2 by (simp add: distinct_map)
  ultimately have ds: "distinct (array_sort ?cmp m1)" "distinct (array_sort ?cmp m2)"
    by (simp_all add: distinct_array_sort)
  have e: "set (array_sort ?cmp m1) = set (array_sort ?cmp m2)" by (simp add: set_array_sort eq)
  have sub: "set (array_sort ?cmp m1) \<subseteq> set m1" by (simp add: set_array_sort)
  show ?thesis
    by (rule sorted_wrt_unique[OF antisym s1 s2 ds e sub])
qed

section \<open>Decimal numerals\<close>

lemma hex_digit_is_digit: "d < 10 \<Longrightarrow> is_digit (hex_digit d)"
proof -
  assume "d < 10"
  then have "d = 0 \<or> d = 1 \<or> d = 2 \<or> d = 3 \<or> d = 4 \<or> d = 5 \<or> d = 6 \<or> d = 7 \<or> d = 8 \<or> d = 9"
    by arith
  then show ?thesis by (auto simp: hex_digit_def is_digit_def)
qed

lemma hex_digit_value: "d < 10 \<Longrightarrow> of_char (hex_digit d) - (48::nat) = d"
proof -
  assume "d < 10"
  then have "d = 0 \<or> d = 1 \<or> d = 2 \<or> d = 3 \<or> d = 4 \<or> d = 5 \<or> d = 6 \<or> d = 7 \<or> d = 8 \<or> d = 9"
    by arith
  then show ?thesis by (auto simp: hex_digit_def)
qed

lemma decimal_digits_not_Nil: "decimal_digits n \<noteq> []"
  by (subst decimal_digits.simps) simp

lemma decimal_digits_all: "list_all is_digit (decimal_digits n)"
proof (induction n rule: decimal_digits.induct)
  case (1 n)
  show ?case
  proof (cases "n < 10")
    case True
    then show ?thesis by (subst decimal_digits.simps) (simp add: hex_digit_is_digit)
  next
    case False
    then show ?thesis using 1
      by (subst decimal_digits.simps) (simp add: hex_digit_is_digit)
  qed
qed

lemma digits_value_snoc:
  "digits_value (ds @ [c]) = 10 * digits_value ds + (of_char c - 48)"
  by (simp add: digits_value_def)

lemma digits_value_decimal_digits: "digits_value (decimal_digits n) = n"
proof (induction n rule: decimal_digits.induct)
  case (1 n)
  show ?case
  proof (cases "n < 10")
    case True
    then show ?thesis
      by (subst decimal_digits.simps) (simp add: digits_value_def hex_digit_value)
  next
    case False
    then have "digits_value (decimal_digits (n div 10)) = n div 10" using 1 by simp
    with False show ?thesis
      by (subst decimal_digits.simps) (simp add: digits_value_snoc hex_digit_value)
  qed
qed

lemma unsigned_number_decimal_digits: "unsigned_number (decimal_digits n) = Some (int n)"
  by (simp add: unsigned_number_def decimal_digits_not_Nil decimal_digits_all
      digits_value_decimal_digits)

lemma hd_decimal_digits: "is_digit (hd (decimal_digits n))"
  using decimal_digits_all[of n] decimal_digits_not_Nil[of n]
  by (cases "decimal_digits n") simp_all

lemma decimalNumber_decimalString: "decimalNumber (decimalString (Integer i)) = Integer i"
proof (cases "i < 0")
  case True
  then show ?thesis
    by (simp add: decimalNumber_def decimalString_def unsigned_number_decimal_digits)
next
  case False
  have "hd (decimal_digits (nat i)) \<noteq> CHR ''-''" "hd (decimal_digits (nat i)) \<noteq> CHR ''+''"
    using hd_decimal_digits[of "nat i"] by (auto simp: is_digit_def)
  with False show ?thesis
    by (simp add: decimalNumber_def decimalString_def unsigned_number_decimal_digits
        decimal_digits_not_Nil)
qed

lemma underscore_notin_decimalString: "CHR ''_'' \<notin> set (decimalString (Integer i))"
proof -
  have "CHR ''_'' \<notin> set (decimal_digits n)" for n
    using decimal_digits_all[of n] by (auto simp: list_all_iff is_digit_def)
  then show ?thesis by (simp add: decimalString_def)
qed

lemma escape_safe_no_underscore: "CHR ''_'' \<notin> set s \<Longrightarrow> escape_safe s"
  unfolding escape_safe_def by (auto dest!: set_mono_sublist)

lemma escape_safe_decimalString: "escape_safe (decimalString (Integer i))"
  by (rule escape_safe_no_underscore) (rule underscore_notin_decimalString)

section \<open>Parsing an identifier\<close>

text \<open>C4. \<open>parseRuleIdentifier\<close> splits its input at every \<open>$\<close>. One part gives the
  Grafana identifier whose uid is the whole input; four parts are unescaped one by one and
  give the cloud identifier whose hash is the fourth part converted to a number; any other
  number of parts raises an error whose message ends with the input.\<close>

theorem parseRuleIdentifier_by_part_count:
  "(length (split_str CHR ''$'' location) = 1 \<longrightarrow>
      parseRuleIdentifier toNumber location = Inr (GrafanaRuleIdentifier location)) \<and>
   (\<forall>a b c d. split_str CHR ''$'' location = [a, b, c, d] \<longrightarrow>
      parseRuleIdentifier toNumber location =
        Inr (CloudRuleIdentifier (unesacapeDollars a) (unesacapeDollars b) (unesacapeDollars c)
               (toNumber (unesacapeDollars d)))) \<and>
   (length (split_str CHR ''$'' location) \<noteq> 1 \<and> length (split_str CHR ''$'' location) \<noteq> 4 \<longrightarrow>
      parseRuleIdentifier toNumber location =
        Inl (Error (''Failed to parse rule location: '' @ location)))"
  by (simp add: parseRuleIdentifier_def Let_def)

theorem parseRuleIdentifier_by_part_count_witness:
  "length (split_str CHR ''$'' ''abc123'') = 1 \<and>
   parseRuleIdentifier decimalNumber ''abc123'' = Inr (GrafanaRuleIdentifier ''abc123'') \<and>
   split_str CHR ''$'' ''mimir-1$ns_DOLLAR_a$grp-1$42'' = [''mimir-1'', ''ns_DOLLAR_a'', ''grp-1'', ''42''] \<and>
   parseRuleIdentifier decimalNumber ''mimir-1$ns_DOLLAR_a$grp-1$42'' =
     Inr (CloudRuleIdentifier ''mimir-1'' ''ns$a'' ''grp-1'' (Integer 42)) \<and>
   length (split_str CHR ''$'' ''a$b$c'') \<noteq> 1 \<and> length (split_str CHR ''$'' ''a$b$c'') \<noteq> 4 \<and>
   parseRuleIdentifier decimalNumber ''a$b$c'' =
     Inl (Error ''Failed to parse rule location: a$b$c'')"
proof -
  have h1: "length (split_str CHR ''$'' ''abc123'') = 1" by code_simp
  have h2: "split_str CHR ''$'' ''mimir-1$ns_DOLLAR_a$grp-1$42'' =
              [''mimir-1'', ''ns_DOLLAR_a'', ''grp-1'', ''42'']" by code_simp
  have h3: "length (split_str CHR ''$'' ''a$b$c'') \<noteq> 1 \<and> length (split_str CHR ''$'' ''a$b$c'') \<noteq> 4"
    by code_simp
  have u: "unesacapeDollars ''mimir-1'' = ''mimir-1''" "unesacapeDollars ''ns_DOLLAR_a'' = ''ns$a''"
    "unesacapeDollars ''grp-1'' = ''grp-1''" "decimalNumber (unesacapeDollars ''42'') = Integer 42"
    by code_simp+
  from parseRuleIdentifier_by_part_count[of "''abc123''" decimalNumber] h1
  have 1: "parseRuleIdentifier decimalNumber ''abc123'' = Inr (GrafanaRuleIdentifier ''abc123'')"
    by blast
  from parseRuleIdentifier_by_part_count[of "''mimir-1$ns_DOLLAR_a$grp-1$42''" decimalNumber] h2
  have "parseRuleIdentifier decimalNumber ''mimir-1$ns_DOLLAR_a$grp-1$42'' =
     Inr (CloudRuleIdentifier (unesacapeDollars ''mimir-1'') (unesacapeDollars ''ns_DOLLAR_a'')
            (unesacapeDollars ''grp-1'') (decimalNumber (unesacapeDollars ''42'')))"
    by blast
  then have 2: "parseRuleIdentifier decimalNumber ''mimir-1$ns_DOLLAR_a$grp-1$42'' =
     Inr (CloudRuleIdentifier ''mimir-1'' ''ns$a'' ''grp-1'' (Integer 42))"
    by (simp only: u)
  from parseRuleIdentifier_by_part_count[of "''a$b$c''" decimalNumber] h3
  have 3: "parseRuleIdentifier decimalNumber ''a$b$c'' =
     Inl (Error (''Failed to parse rule location: '' @ ''a$b$c''))"
    by blast
  from h1 h2 h3 1 2 3 show ?thesis by simp
qed

text \<open>C10. On an input of four parts \<open>parseRuleIdentifier\<close> raises no error, whatever the
  fourth part is: it returns a cloud identifier whose hash is the number the conversion
  answers for the unescaped fourth part, which is \<open>NaN\<close> for a text that is no numeral.\<close>

theorem parseRuleIdentifier_four_parts_never_fails:
  "length (split_str CHR ''$'' location) = 4 \<Longrightarrow>
   \<exists>s n g. parseRuleIdentifier toNumber location =
     Inr (CloudRuleIdentifier s n g
            (toNumber (unesacapeDollars (split_str CHR ''$'' location ! 3))))"
  by (simp add: parseRuleIdentifier_def Let_def)

theorem parseRuleIdentifier_four_parts_never_fails_witness:
  "length (split_str CHR ''$'' ''a$b$c$xyz'') = 4 \<and>
   decimalNumber (unesacapeDollars (split_str CHR ''$'' ''a$b$c$xyz'' ! 3)) = NaN \<and>
   (\<exists>s n g. parseRuleIdentifier decimalNumber ''a$b$c$xyz'' = Inr (CloudRuleIdentifier s n g NaN))"
proof -
  have h: "length (split_str CHR ''$'' ''a$b$c$xyz'') = 4" by code_simp
  have n: "decimalNumber (unesacapeDollars (split_str CHR ''$'' ''a$b$c$xyz'' ! 3)) = NaN"
    by code_simp
  from parseRuleIdentifier_four_parts_never_fails[OF h, of decimalNumber] h n
  show ?thesis by simp
qed

section \<open>Classifying a rule object\<close>

text \<open>C9. \<open>isGrafanaRulerRule\<close> raises no error on a missing argument: for
  \<open>undefined\<close> it returns false, and for a rule object it returns whether the object has
  the key \<open>grafana_alert\<close>.\<close>

theorem isGrafanaRulerRule_tolerates_undefined:
  "isGrafanaRulerRule None = Inr False \<and>
   isGrafanaRulerRule (Some rule) = Inr (grafana_alert rule \<noteq> None)"
  by (simp add: isGrafanaRulerRule_def typeof_def in_grafana_alert_def)

text \<open>C6, as the code has it. The classifiers read one key each and nothing else, so an
  object with two of the keys is accepted by two classifiers: an object that has both
  \<open>alert\<close> and \<open>record\<close> is an alerting rule and a recording rule at once.\<close>

theorem classifiers_overlap_counterexample:
  "isAlertingRulerRule \<lparr>alert = Some ''HighCPU'', record' = Some ''cpu:alert'',
       expr = Some ''up == 0'', labels = None, annotations = None, grafana_alert = None\<rparr> \<and>
   isRecordingRulerRule \<lparr>alert = Some ''HighCPU'', record' = Some ''cpu:alert'',
       expr = Some ''up == 0'', labels = None, annotations = None, grafana_alert = None\<rparr> \<and>
   \<not> shapes_matched \<lparr>alert = Some ''HighCPU'', record' = Some ''cpu:alert'',
       expr = Some ''up == 0'', labels = None, annotations = None, grafana_alert = None\<rparr> \<le> 1"
  by (simp add: shapes_matched_def isAlertingRulerRule_def isRecordingRulerRule_def
      isGrafanaRulerRule_def typeof_def in_grafana_alert_def)

text \<open>C6, amended. A rule object that has at most one of the keys \<open>alert\<close>,
  \<open>record\<close> and \<open>grafana_alert\<close> is accepted by at most one classifier: by exactly one
  when it has one of the keys, by none when it has none. A rule object that has two of the
  keys is accepted by both classifiers that read them.\<close>

theorem classifiers_by_key:
  "(distinguishing_keys rule \<le> 1 \<longrightarrow>
      shapes_matched rule \<le> 1 \<and> shapes_matched rule = distinguishing_keys rule) \<and>
   (alert rule \<noteq> None \<and> record' rule \<noteq> None \<longrightarrow>
      isAlertingRulerRule rule \<and> isRecordingRulerRule rule) \<and>
   (alert rule \<noteq> None \<and> grafana_alert rule \<noteq> None \<longrightarrow>
      isAlertingRulerRule rule \<and> isGrafanaRulerRule (Some rule) = Inr True) \<and>
   (record' rule \<noteq> None \<and> grafana_alert rule \<noteq> None \<longrightarrow>
      isRecordingRulerRule rule \<and> isGrafanaRulerRule (Some rule) = Inr True)"
  by (simp add: shapes_matched_def distinguishing_keys_def isAlertingRulerRule_def
      isRecordingRulerRule_def isGrafanaRulerRule_def typeof_def in_grafana_alert_def)

theorem classifiers_by_key_witness:
  "distinguishing_keys \<lparr>alert = Some ''HighCPU'', record' = None, expr = Some ''up == 0'',
       labels = None, annotations = None, grafana_alert = None\<rparr> \<le> 1 \<and>
   shapes_matched \<lparr>alert = Some ''HighCPU'', record' = None, expr = Some ''up == 0'',
       labels = None, annotations = None, grafana_alert = None\<rparr> = 1 \<and>
   isAlertingRulerRule \<lparr>alert = Some ''HighCPU'', record' = None, expr = Some ''up == 0'',
       labels = None, annotations = None, grafana_alert = None\<rparr> \<and>
   isAlertingRulerRule \<lparr>alert = Some ''HighCPU'', record' = Some ''cpu:alert'',
       expr = Some ''up == 0'', labels = None, annotations = None, grafana_alert = None\<rparr> \<and>
   isRecordingRulerRule \<lparr>alert = Some ''HighCPU'', record' = Some ''cpu:alert'',
       expr = Some ''up == 0'', labels = None, annotations = None, grafana_alert = None\<rparr> \<and>
   isAlertingRulerRule \<lparr>alert = Some ''HighCPU'', record' = None, expr = Some ''up == 0'',
       labels = None, annotations = None,
       grafana_alert = Some \<lparr>grafana_alert_uid = ''abc123''\<rparr>\<rparr> \<and>
   isGrafanaRulerRule (Some \<lparr>alert = Some ''HighCPU'', record' = None, expr = Some ''up == 0'',
       labels = None, annotations = None,
       grafana_alert = Some \<lparr>grafana_alert_uid = ''abc123''\<rparr>\<rparr>) = Inr True \<and>
   isRecordingRulerRule \<lparr>alert = None, record' = Some ''cpu:alert'', expr = Some ''up == 0'',
       labels = None, annotations = None,
       grafana_alert = Some \<lparr>grafana_alert_uid = ''abc123''\<rparr>\<rparr> \<and>
   isGrafanaRulerRule (Some \<lparr>alert = None, record' = Some ''cpu:alert'', expr = Some ''up == 0'',
       labels = None, annotations = None,
       grafana_alert = Some \<lparr>grafana_alert_uid = ''abc123''\<rparr>\<rparr>) = Inr True"
proof -
  let ?a = "\<lparr>alert = Some ''HighCPU'', record' = None, expr = Some ''up == 0'',
       labels = None, annotations = None, grafana_alert = None\<rparr>"
  let ?ar = "\<lparr>alert = Some ''HighCPU'', record' = Some ''cpu:alert'',
       expr = Some ''up == 0'', labels = None, annotations = None, grafana_alert = None\<rparr>"
  let ?ag = "\<lparr>alert = Some ''HighCPU'', record' = None, expr = Some ''up == 0'',
       labels = None, annotations = None,
       grafana_alert = Some \<lparr>grafana_alert_uid = ''abc123''\<rparr>\<rparr>"
  let ?rg = "\<lparr>alert = None, record' = Some ''cpu:alert'', expr = Some ''up == 0'',
       labels = None, annotations = None,
       grafana_alert = Some \<lparr>grafana_alert_uid = ''abc123''\<rparr>\<rparr>"
  have h: "distinguishing_keys ?a \<le> 1" and k: "distinguishing_keys ?a = 1"
    by (simp_all add: distinguishing_keys_def)
  have a: "isAlertingRulerRule ?a" by (simp add: isAlertingRulerRule_def)
  have har: "alert ?ar \<noteq> None \<and> record' ?ar \<noteq> None" by simp
  have hag: "alert ?ag \<noteq> None \<and> grafana_alert ?ag \<noteq> None" by simp
  have hrg: "record' ?rg \<noteq> None \<and> grafana_alert ?rg \<noteq> None" by simp
  from classifiers_by_key[of ?a] h k have 1: "shapes_matched ?a = 1" by simp
  from classifiers_by_key[of ?ar] har
  have 2: "isAlertingRulerRule ?ar \<and> isRecordingRulerRule ?ar" by blast
  from classifiers_by_key[of ?ag] hag
  have 3: "isAlertingRulerRule ?ag \<and> isGrafanaRulerRule (Some ?ag) = Inr True" by blast
  from classifiers_by_key[of ?rg] hrg
  have 4: "isRecordingRulerRule ?rg \<and> isGrafanaRulerRule (Some ?rg) = Inr True" by blast
  from h 1 a 2 3 4 show ?thesis by blast
qed

section \<open>Deriving the identifier of a rule\<close>

text \<open>C7. For a rule object that \<open>isGrafanaRulerRule\<close> accepts, \<open>getRuleIdentifier\<close>
  returns the Grafana identifier of the uid in the object's \<open>grafana_alert\<close> block. For
  every other rule object it returns the cloud identifier of the three location fields it
  was given and of \<open>hashRulerRule\<close> of the object; where \<open>hashRulerRule\<close> raises, so
  does \<open>getRuleIdentifier\<close>.\<close>

theorem getRuleIdentifier_by_shape:
  "(isGrafanaRulerRule (Some rule) = Inr True \<longrightarrow>
      (\<exists>g. grafana_alert rule = Some g \<and>
           getRuleIdentifier hash lc s n grp rule =
             Inr (GrafanaRuleIdentifier (grafana_alert_uid g)))) \<and>
   (isGrafanaRulerRule (Some rule) \<noteq> Inr True \<longrightarrow>
      getRuleIdentifier hash lc s n grp rule =
        (case hashRulerRule hash lc rule of
           Inl e \<Rightarrow> Inl e
         | Inr h \<Rightarrow> Inr (CloudRuleIdentifier s n grp h)))"
  by (auto simp: getRuleIdentifier_def isGrafanaRulerRule_def typeof_def in_grafana_alert_def)

theorem getRuleIdentifier_by_shape_witness:
  "isGrafanaRulerRule (Some \<lparr>alert = None, record' = None, expr = None, labels = None,
       annotations = None, grafana_alert = Some \<lparr>grafana_alert_uid = ''abc123''\<rparr>\<rparr>) = Inr True \<and>
   getRuleIdentifier length_hash compare_codes ''grafana'' ''ns-a'' ''grp-1''
     \<lparr>alert = None, record' = None, expr = None, labels = None,
       annotations = None, grafana_alert = Some \<lparr>grafana_alert_uid = ''abc123''\<rparr>\<rparr> =
     Inr (GrafanaRuleIdentifier ''abc123'') \<and>
   isGrafanaRulerRule (Some \<lparr>alert = None, record' = Some ''cpu:alert'', expr = Some ''up == 0'',
       labels = Some [(''team'', ''infra'')], annotations = None, grafana_alert = None\<rparr>) \<noteq> Inr True \<and>
   getRuleIdentifier length_hash compare_codes ''mimir-1'' ''ns-a'' ''grp-1''
     \<lparr>alert = None, record' = Some ''cpu:alert'', expr = Some ''up == 0'',
       labels = Some [(''team'', ''infra'')], annotations = None, grafana_alert = None\<rparr> =
     Inr (CloudRuleIdentifier ''mimir-1'' ''ns-a'' ''grp-1'' (Integer 48))"
proof -
  let ?g = "\<lparr>alert = None, record' = None, expr = None, labels = None,
       annotations = None, grafana_alert = Some \<lparr>grafana_alert_uid = ''abc123''\<rparr>\<rparr>"
  let ?r = "\<lparr>alert = None, record' = Some ''cpu:alert'', expr = Some ''up == 0'',
       labels = Some [(''team'', ''infra'')], annotations = None, grafana_alert = None\<rparr>"
  have h1: "isGrafanaRulerRule (Some ?g) = Inr True"
    by (simp add: isGrafanaRulerRule_def typeof_def in_grafana_alert_def)
  have h2: "isGrafanaRulerRule (Some ?r) \<noteq> Inr True"
    by (simp add: isGrafanaRulerRule_def typeof_def in_grafana_alert_def)
  have v: "hashRulerRule length_hash compare_codes ?r = Inr (Integer 48)"
    by code_simp
  from getRuleIdentifier_by_shape[of ?g length_hash compare_codes "''grafana''" "''ns-a''" "''grp-1''"] h1
  have 1: "getRuleIdentifier length_hash compare_codes ''grafana'' ''ns-a'' ''grp-1'' ?g =
     Inr (GrafanaRuleIdentifier ''abc123'')" by auto
  from getRuleIdentifier_by_shape[of ?r length_hash compare_codes "''mimir-1''" "''ns-a''" "''grp-1''"] h2
  have "getRuleIdentifier length_hash compare_codes ''mimir-1'' ''ns-a'' ''grp-1'' ?r =
     (case hashRulerRule length_hash compare_codes ?r of
        Inl e \<Rightarrow> Inl e
      | Inr h \<Rightarrow> Inr (CloudRuleIdentifier ''mimir-1'' ''ns-a'' ''grp-1'' h))"
    by blast
  then have 2: "getRuleIdentifier length_hash compare_codes ''mimir-1'' ''ns-a'' ''grp-1'' ?r =
     Inr (CloudRuleIdentifier ''mimir-1'' ''ns-a'' ''grp-1'' (Integer 48))"
    by (simp only: v sum.case)
  from h1 h2 1 2 show ?thesis by blast
qed

section \<open>Hashing a rule\<close>

text \<open>C2, as the code has it. \<open>hashRulerRule\<close> tests for a recording rule first, so a rule
  object that has both \<open>alert\<close> and \<open>record\<close> is an alerting rule by its classifier and
  is hashed as a recording rule, not from its alert name and annotations. Here the hash is
  the length of the text.\<close>

theorem hashRulerRule_alerting_counterexample:
  "isAlertingRulerRule \<lparr>alert = Some ''HighCPU'', record' = Some ''cpu:alert'',
       expr = Some ''up == 0'', labels = None, annotations = None, grafana_alert = None\<rparr> \<and>
   hashRulerRule length_hash compare_codes
     \<lparr>alert = Some ''HighCPU'', record' = Some ''cpu:alert'',
       expr = Some ''up == 0'', labels = None, annotations = None, grafana_alert = None\<rparr> \<noteq>
   Inr (length_hash (JSON_stringify (JArray
          [JString ''HighCPU'', JString ''up == 0'',
           JString (hashLabelsOrAnnotations compare_codes None),
           JString (hashLabelsOrAnnotations compare_codes None)])))"
  by code_simp

text \<open>C2, amended. For a recording rule the hash is \<open>hash\<close> of the JSON text of the array
  of the record name, the expression and the canonical text of the labels, in this order.
  For an alerting rule that is not also a recording rule it is \<open>hash\<close> of the JSON text
  of the array of the alert name, the expression, the canonical text of the annotations and
  the canonical text of the labels, in this order.\<close>

theorem hashRulerRule_content:
  "(isRecordingRulerRule rule \<longrightarrow>
      (\<exists>name. record' rule = Some name \<and>
         hashRulerRule hash lc rule =
           Inr (hash (JSON_stringify (JArray
             [JString name, json_of_string (expr rule),
              JString (hashLabelsOrAnnotations lc (labels rule))]))))) \<and>
   (isAlertingRulerRule rule \<and> \<not> isRecordingRulerRule rule \<longrightarrow>
      (\<exists>name. alert rule = Some name \<and>
         hashRulerRule hash lc rule =
           Inr (hash (JSON_stringify (JArray
             [JString name, json_of_string (expr rule),
              JString (hashLabelsOrAnnotations lc (annotations rule)),
              JString (hashLabelsOrAnnotations lc (labels rule))])))))"
  by (auto simp: hashRulerRule_def isRecordingRulerRule_def isAlertingRulerRule_def
      json_of_string_def)

theorem hashRulerRule_content_witness:
  "isRecordingRulerRule \<lparr>alert = None, record' = Some ''cpu:alert'', expr = Some ''up == 0'',
       labels = Some [(''team'', ''infra'')], annotations = None, grafana_alert = None\<rparr> \<and>
   hashRulerRule length_hash compare_codes
     \<lparr>alert = None, record' = Some ''cpu:alert'', expr = Some ''up == 0'',
       labels = Some [(''team'', ''infra'')], annotations = None, grafana_alert = None\<rparr> =
     Inr (length_hash (JSON_stringify (JArray
       [JString ''cpu:alert'', JString ''up == 0'',
        JString (hashLabelsOrAnnotations compare_codes (Some [(''team'', ''infra'')]))]))) \<and>
   isAlertingRulerRule \<lparr>alert = Some ''HighCPU'', record' = None, expr = Some ''up == 0'',
       labels = Some [(''team'', ''infra'')], annotations = Some [(''summary'', ''down'')],
       grafana_alert = None\<rparr> \<and>
   \<not> isRecordingRulerRule \<lparr>alert = Some ''HighCPU'', record' = None, expr = Some ''up == 0'',
       labels = Some [(''team'', ''infra'')], annotations = Some [(''summary'', ''down'')],
       grafana_alert = None\<rparr> \<and>
   hashRulerRule length_hash compare_codes
     \<lparr>alert = Some ''HighCPU'', record' = None, expr = Some ''up == 0'',
       labels = Some [(''team'', ''infra'')], annotations = Some [(''summary'', ''down'')],
       grafana_alert = None\<rparr> =
     Inr (length_hash (JSON_stringify (JArray
       [JString ''HighCPU'', JString ''up == 0'',
        JString (hashLabelsOrAnnotations compare_codes (Some [(''summary'', ''down'')])),
        JString (hashLabelsOrAnnotations compare_codes (Some [(''team'', ''infra'')]))])))"
proof -
  let ?r = "\<lparr>alert = None, record' = Some ''cpu:alert'', expr = Some ''up == 0'',
       labels = Some [(''team'', ''infra'')], annotations = None, grafana_alert = None\<rparr>"
  let ?a = "\<lparr>alert = Some ''HighCPU'', record' = None, expr = Some ''up == 0'',
       labels = Some [(''team'', ''infra'')], annotations = Some [(''summary'', ''down'')],
       grafana_alert = None\<rparr>"
  have h1: "isRecordingRulerRule ?r" by (simp add: isRecordingRulerRule_def)
  have h2: "isAlertingRulerRule ?a \<and> \<not> isRecordingRulerRule ?a"
    by (simp add: isRecordingRulerRule_def isAlertingRulerRule_def)
  from hashRulerRule_content[of ?r length_hash compare_codes] h1
  have 1: "hashRulerRule length_hash compare_codes ?r =
     Inr (length_hash (JSON_stringify (JArray
       [JString ''cpu:alert'', JString ''up == 0'',
        JString (hashLabelsOrAnnotations compare_codes (Some [(''team'', ''infra'')]))])))"
    by (simp add: json_of_string_def)
  from hashRulerRule_content[of ?a length_hash compare_codes] h2
  have 2: "hashRulerRule length_hash compare_codes ?a =
     Inr (length_hash (JSON_stringify (JArray
       [JString ''HighCPU'', JString ''up == 0'',
        JString (hashLabelsOrAnnotations compare_codes (Some [(''summary'', ''down'')])),
        JString (hashLabelsOrAnnotations compare_codes (Some [(''team'', ''infra'')]))])))"
    by (simp add: json_of_string_def)
  from h1 h2 1 2 show ?thesis by blast
qed

text \<open>C5, as the code has it. \<open>hashRulerRule\<close> never looks at \<open>grafana_alert\<close>: a rule
  object with that block which also has the key \<open>record\<close> is a Grafana rule by its
  classifier and is hashed without an error.\<close>

theorem hashRulerRule_native_counterexample:
  "isGrafanaRulerRule (Some \<lparr>alert = None, record' = Some ''cpu:alert'', expr = Some ''up == 0'',
       labels = None, annotations = None,
       grafana_alert = Some \<lparr>grafana_alert_uid = ''abc123''\<rparr>\<rparr>) = Inr True \<and>
   hashRulerRule length_hash compare_codes
     \<lparr>alert = None, record' = Some ''cpu:alert'', expr = Some ''up == 0'',
       labels = None, annotations = None,
       grafana_alert = Some \<lparr>grafana_alert_uid = ''abc123''\<rparr>\<rparr> = Inr (Integer 28)"
  by code_simp

text \<open>C5, amended. For a rule object that is neither a recording rule nor an alerting rule,
  as is a Grafana rule that has neither of the keys \<open>record\<close> and \<open>alert\<close>,
  \<open>hashRulerRule\<close> raises the error "only recording and alerting ruler rules can be
  hashed"; for a recording rule or an alerting rule it returns a hash.\<close>

theorem hashRulerRule_unsupported:
  "(\<not> isRecordingRulerRule rule \<and> \<not> isAlertingRulerRule rule \<longrightarrow>
      hashRulerRule hash lc rule =
        Inl (Error ''only recording and alerting ruler rules can be hashed'')) \<and>
   (isRecordingRulerRule rule \<or> isAlertingRulerRule rule \<longrightarrow>
      (\<exists>h. hashRulerRule hash lc rule = Inr h))"
  by (simp add: hashRulerRule_def)

theorem hashRulerRule_unsupported_witness:
  "\<not> isRecordingRulerRule \<lparr>alert = None, record' = None, expr = None, labels = None,
       annotations = None, grafana_alert = Some \<lparr>grafana_alert_uid = ''abc123''\<rparr>\<rparr> \<and>
   \<not> isAlertingRulerRule \<lparr>alert = None, record' = None, expr = None, labels = None,
       annotations = None, grafana_alert = Some \<lparr>grafana_alert_uid = ''abc123''\<rparr>\<rparr> \<and>
   hashRulerRule length_hash compare_codes
     \<lparr>alert = None, record' = None, expr = None, labels = None,
       annotations = None, grafana_alert = Some \<lparr>grafana_alert_uid = ''abc123''\<rparr>\<rparr> =
     Inl (Error ''only recording and alerting ruler rules can be hashed'') \<and>
   isAlertingRulerRule \<lparr>alert = Some ''HighCPU'', record' = None, expr = Some ''up == 0'',
       labels = None, annotations = None, grafana_alert = None\<rparr> \<and>
   (\<exists>h. hashRulerRule length_hash compare_codes
     \<lparr>alert = Some ''HighCPU'', record' = None, expr = Some ''up == 0'',
       labels = None, annotations = None, grafana_alert = None\<rparr> = Inr h)"
proof -
  let ?g = "\<lparr>alert = None, record' = None, expr = None, labels = None,
       annotations = None, grafana_alert = Some \<lparr>grafana_alert_uid = ''abc123''\<rparr>\<rparr>"
  let ?a = "\<lparr>alert = Some ''HighCPU'', record' = None, expr = Some ''up == 0'',
       labels = None, annotations = None, grafana_alert = None\<rparr>"
  have h1: "\<not> isRecordingRulerRule ?g \<and> \<not> isAlertingRulerRule ?g"
    by (simp add: isRecordingRulerRule_def isAlertingRulerRule_def)
  have h2: "isAlertingRulerRule ?a" by (simp add: isAlertingRulerRule_def)
  from hashRulerRule_unsupported[of ?g length_hash compare_codes] h1
  have 1: "hashRulerRule length_hash compare_codes ?g =
     Inl (Error ''only recording and alerting ruler rules can be hashed'')" by blast
  from hashRulerRule_unsupported[of ?a length_hash compare_codes] h2
  have 2: "\<exists>h. hashRulerRule length_hash compare_codes ?a = Inr h" by blast
  from h1 h2 1 2 show ?thesis by blast
qed

section \<open>Stringifying and parsing back\<close>

lemma stringify_cloud:
  "stringifyRuleIdentifier toString (CloudRuleIdentifier s n g h) =
     join_str ''$'' [escapeDollars s, escapeDollars n, escapeDollars g, escapeDollars (toString h)]"
  by (simp add: stringifyRuleIdentifier_def)

lemma split_stringify_cloud:
  "split_str CHR ''$'' (stringifyRuleIdentifier toString (CloudRuleIdentifier s n g h)) =
     [escapeDollars s, escapeDollars n, escapeDollars g, escapeDollars (toString h)]"
  unfolding stringify_cloud
  by (rule split_join) (simp_all add: dollar_notin_escapeDollars)

lemma parse_stringify_cloud:
  "parseRuleIdentifier toNumber (stringifyRuleIdentifier toString (CloudRuleIdentifier s n g h)) =
     Inr (CloudRuleIdentifier (unesacapeDollars (escapeDollars s))
            (unesacapeDollars (escapeDollars n)) (unesacapeDollars (escapeDollars g))
            (toNumber (unesacapeDollars (escapeDollars (toString h)))))"
  by (simp add: parseRuleIdentifier_def split_stringify_cloud)

lemma parse_stringify_grafana:
  "CHR ''$'' \<notin> set u \<Longrightarrow>
   parseRuleIdentifier toNumber (stringifyRuleIdentifier toString (GrafanaRuleIdentifier u)) =
     Inr (GrafanaRuleIdentifier u)"
  by (simp add: parseRuleIdentifier_def stringifyRuleIdentifier_def split_str_no_sep)

text \<open>C1, as the code has it. Parsing the string of an identifier does not always give the
  identifier back: \<open>_DOLLAR_\<close> inside a field comes back as \<open>$\<close>, a field that ends
  with \<open>_DOLLAR$\<close> comes back changed although it does not contain \<open>_DOLLAR_\<close>, and a
  uid with a \<open>$\<close> in it is split into parts and rejected.\<close>

theorem roundtrip_counterexample:
  "parseRuleIdentifier decimalNumber
     (stringifyRuleIdentifier decimalString
        (CloudRuleIdentifier ''a_DOLLAR_b'' ''ns-a'' ''grp-1'' (Integer 7))) =
     Inr (CloudRuleIdentifier ''a$b'' ''ns-a'' ''grp-1'' (Integer 7)) \<and>
   parseRuleIdentifier decimalNumber
     (stringifyRuleIdentifier decimalString
        (CloudRuleIdentifier ''a_DOLLAR_b'' ''ns-a'' ''grp-1'' (Integer 7))) \<noteq>
     Inr (CloudRuleIdentifier ''a_DOLLAR_b'' ''ns-a'' ''grp-1'' (Integer 7)) \<and>
   parseRuleIdentifier decimalNumber
     (stringifyRuleIdentifier decimalString
        (CloudRuleIdentifier ''a_DOLLAR$'' ''ns-a'' ''grp-1'' (Integer 7))) =
     Inr (CloudRuleIdentifier ''a$DOLLAR_'' ''ns-a'' ''grp-1'' (Integer 7)) \<and>
   parseRuleIdentifier decimalNumber
     (stringifyRuleIdentifier decimalString
        (CloudRuleIdentifier ''a_DOLLAR$'' ''ns-a'' ''grp-1'' (Integer 7))) \<noteq>
     Inr (CloudRuleIdentifier ''a_DOLLAR$'' ''ns-a'' ''grp-1'' (Integer 7)) \<and>
   parseRuleIdentifier decimalNumber
     (stringifyRuleIdentifier decimalString (GrafanaRuleIdentifier ''a$b'')) =
     Inl (Error ''Failed to parse rule location: a$b'')"
  by code_simp

text \<open>C1, amended. Parsing the string of an identifier gives the identifier back for every
  Grafana identifier whose uid has no \<open>$\<close>, and for every cloud identifier whose three
  text fields have no occurrence of \<open>_DOLLAR\<close> followed by \<open>_\<close> or \<open>$\<close> and whose
  hash is written by \<open>String\<close> as such a text that \<open>Number\<close> converts back to the hash.
  The lemmas \<open>escape_safe_decimalString\<close> and \<open>decimalNumber_decimalString\<close> show that
  every integer hash is of this kind.\<close>

theorem parse_stringify_roundtrip:
  "(CHR ''$'' \<notin> set u \<longrightarrow>
      parseRuleIdentifier toNumber (stringifyRuleIdentifier toString (GrafanaRuleIdentifier u)) =
        Inr (GrafanaRuleIdentifier u)) \<and>
   (escape_safe s \<and> escape_safe n \<and> escape_safe g \<and> escape_safe (toString h) \<and>
    toNumber (toString h) = h \<longrightarrow>
      parseRuleIdentifier toNumber
        (stringifyRuleIdentifier toString (CloudRuleIdentifier s n g h)) =
        Inr (CloudRuleIdentifier s n g h))"
  by (simp add: parse_stringify_grafana parse_stringify_cloud unescape_escape)

theorem parse_stringify_roundtrip_witness:
  "CHR ''$'' \<notin> set ''abc123'' \<and>
   parseRuleIdentifier decimalNumber
     (stringifyRuleIdentifier decimalString (GrafanaRuleIdentifier ''abc123'')) =
     Inr (GrafanaRuleIdentifier ''abc123'') \<and>
   escape_safe ''cortex$prod'' \<and> escape_safe ''ns-a'' \<and> escape_safe ''grp-1'' \<and>
   escape_safe (decimalString (Integer (- 12345))) \<and>
   decimalNumber (decimalString (Integer (- 12345))) = Integer (- 12345) \<and>
   stringifyRuleIdentifier decimalString
     (CloudRuleIdentifier ''cortex$prod'' ''ns-a'' ''grp-1'' (Integer (- 12345))) =
     ''cortex_DOLLAR_prod$ns-a$grp-1$-12345'' \<and>
   parseRuleIdentifier decimalNumber ''cortex_DOLLAR_prod$ns-a$grp-1$-12345'' =
     Inr (CloudRuleIdentifier ''cortex$prod'' ''ns-a'' ''grp-1'' (Integer (- 12345)))"
proof -
  have h1: "CHR ''$'' \<notin> set ''abc123''" by simp
  have h2: "escape_safe ''cortex$prod'' \<and> escape_safe ''ns-a'' \<and> escape_safe ''grp-1'' \<and>
     escape_safe (decimalString (Integer (- 12345))) \<and>
     decimalNumber (decimalString (Integer (- 12345))) = Integer (- 12345)"
    by (simp add: escape_safe_def sublist_Cons_right decimalNumber_decimalString
        escape_safe_decimalString[unfolded escape_safe_def])
  have d: "decimalString (Integer (- 12345)) = ''-12345''"
    by (simp add: decimalString_def decimal_digits.simps hex_digit_def)
  have s: "stringifyRuleIdentifier decimalString
     (CloudRuleIdentifier ''cortex$prod'' ''ns-a'' ''grp-1'' (Integer (- 12345))) =
     ''cortex_DOLLAR_prod$ns-a$grp-1$-12345''"
    by (simp add: stringifyRuleIdentifier_def d escapeDollars_Cons)
  from parse_stringify_roundtrip[of "''abc123''" decimalNumber decimalString] h1
  have 1: "parseRuleIdentifier decimalNumber
     (stringifyRuleIdentifier decimalString (GrafanaRuleIdentifier ''abc123'')) =
     Inr (GrafanaRuleIdentifier ''abc123'')" by blast
  from parse_stringify_roundtrip[of _ decimalNumber decimalString "''cortex$prod''" "''ns-a''"
      "''grp-1''" "Integer (- 12345)"] h2
  have "parseRuleIdentifier decimalNumber
     (stringifyRuleIdentifier decimalString
        (CloudRuleIdentifier ''cortex$prod'' ''ns-a'' ''grp-1'' (Integer (- 12345)))) =
     Inr (CloudRuleIdentifier ''cortex$prod'' ''ns-a'' ''grp-1'' (Integer (- 12345)))" by blast
  then have 2: "parseRuleIdentifier decimalNumber ''cortex_DOLLAR_prod$ns-a$grp-1$-12345'' =
     Inr (CloudRuleIdentifier ''cortex$prod'' ''ns-a'' ''grp-1'' (Integer (- 12345)))"
    by (simp only: s)
  from h1 h2 s 1 2 show ?thesis by blast
qed

text \<open>C8. The placeholder itself is not escaped: there is a cloud identifier with a field
  that contains \<open>_DOLLAR_\<close> whose string does not parse back to it, whatever the
  conversions between numbers and strings are.\<close>

theorem placeholder_breaks_roundtrip:
  "\<exists>location. isCloudRuleIdentifier location \<and>
     sublist ''_DOLLAR_'' (ruleSourceName location) \<and>
     parseRuleIdentifier toNumber (stringifyRuleIdentifier toString location) \<noteq> Inr location"
proof -
  fix h :: 'a
  let ?id = "CloudRuleIdentifier ''_DOLLAR_'' ''ns-a'' ''grp-1'' h"
  have u: "unesacapeDollars (escapeDollars ''_DOLLAR_'') = ''$''" by code_simp
  have "parseRuleIdentifier toNumber (stringifyRuleIdentifier toString ?id) \<noteq> Inr ?id"
    unfolding parse_stringify_cloud u by simp
  moreover have "sublist ''_DOLLAR_'' (ruleSourceName ?id)" by simp
  moreover have "isCloudRuleIdentifier ?id" by simp
  ultimately show ?thesis by blast
qed

section \<open>The canonical text of labels and annotations\<close>

text \<open>C3, as the code has it. The sort is stable, so two distinct keys that the comparison
  takes for equal stay in the order in which the mapping enumerates them: two mappings with
  the same two entries, under the keys \<open>a\u0001\<close> and \<open>a\<close>, have different canonical
  texts when their entries come in different orders.\<close>

theorem hashLabelsOrAnnotations_tie_counterexample:
  "distinct (map fst [([CHR ''a'', CHR 0x01], ''1''), (''a'', ''2'')]) \<and>
   distinct (map fst [(''a'', ''2''), ([CHR ''a'', CHR 0x01], ''1'')]) \<and>
   set [([CHR ''a'', CHR 0x01], ''1''), (''a'', ''2'')] =
     set [(''a'', ''2''), ([CHR ''a'', CHR 0x01], ''1'')] \<and>
   compare_ignoring_soh [CHR ''a'', CHR 0x01] ''a'' = 0 \<and>
   hashLabelsOrAnnotations compare_ignoring_soh
     (Some [([CHR ''a'', CHR 0x01], ''1''), (''a'', ''2'')]) \<noteq>
   hashLabelsOrAnnotations compare_ignoring_soh
     (Some [(''a'', ''2''), ([CHR ''a'', CHR 0x01], ''1'')])"
proof -
  have 1: "set [([CHR ''a'', CHR 0x01], ''1''), (''a'', ''2'')] =
     set [(''a'', ''2''), ([CHR ''a'', CHR 0x01], ''1'')]" by auto
  have 2: "distinct (map fst [([CHR ''a'', CHR 0x01], ''1''), (''a'', ''2'')]) \<and>
   distinct (map fst [(''a'', ''2''), ([CHR ''a'', CHR 0x01], ''1'')]) \<and>
   compare_ignoring_soh [CHR ''a'', CHR 0x01] ''a'' = 0 \<and>
   hashLabelsOrAnnotations compare_ignoring_soh
     (Some [([CHR ''a'', CHR 0x01], ''1''), (''a'', ''2'')]) \<noteq>
   hashLabelsOrAnnotations compare_ignoring_soh
     (Some [(''a'', ''2''), ([CHR ''a'', CHR 0x01], ''1'')])"
    by code_simp
  from 1 2 show ?thesis by blast
qed

text \<open>C3, amended. Two mappings with the same entries, enumerated in different orders, have
  the same canonical text when \<open>localeCompare\<close> is consistent on their keys: a total order
  that takes no two distinct keys for equal. A missing mapping has the canonical text of the
  empty mapping. The keys of a mapping are distinct.\<close>

theorem hashLabelsOrAnnotations_order_independent:
  assumes "distinct (map fst m1)" and "distinct (map fst m2)" and "set m1 = set m2"
    and "consistent_on localeCompare (fst ` set m1)"
  shows "hashLabelsOrAnnotations localeCompare (Some m1) =
           hashLabelsOrAnnotations localeCompare (Some m2) \<and>
         hashLabelsOrAnnotations localeCompare None =
           hashLabelsOrAnnotations localeCompare (Some [])"
  using array_sort_entries_unique[OF assms]
  by (simp add: hashLabelsOrAnnotations_def)

theorem hashLabelsOrAnnotations_order_independent_witness:
  "distinct (map fst [(''team'', ''infra''), (''env'', ''prod''), (''Zone'', ''eu'')]) \<and>
   distinct (map fst [(''env'', ''prod''), (''Zone'', ''eu''), (''team'', ''infra'')]) \<and>
   set [(''team'', ''infra''), (''env'', ''prod''), (''Zone'', ''eu'')] =
     set [(''env'', ''prod''), (''Zone'', ''eu''), (''team'', ''infra'')] \<and>
   consistent_on compare_codes
     (fst ` set [(''team'', ''infra''), (''env'', ''prod''), (''Zone'', ''eu'')]) \<and>
   hashLabelsOrAnnotations compare_codes
     (Some [(''team'', ''infra''), (''env'', ''prod''), (''Zone'', ''eu'')]) =
   hashLabelsOrAnnotations compare_codes
     (Some [(''env'', ''prod''), (''Zone'', ''eu''), (''team'', ''infra'')])"
proof -
  let ?m1 = "[(''team'', ''infra''), (''env'', ''prod''), (''Zone'', ''eu'')]"
  let ?m2 = "[(''env'', ''prod''), (''Zone'', ''eu''), (''team'', ''infra'')]"
  have h1: "distinct (map fst ?m1)" by simp
  have h2: "distinct (map fst ?m2)" by simp
  have h3: "set ?m1 = set ?m2" by auto
  have h4: "consistent_on compare_codes (fst ` set ?m1)"
    by (simp add: consistent_on_def compare_total_def compare_antisym_def compare_trans_def)
  from hashLabelsOrAnnotations_order_independent[OF h1 h2 h3 h4] h1 h2 h3 h4
  show ?thesis by blast
qed

end
